theory Spec2Isabelle
  imports Main
begin

section \<open>JavaScript values as the handlers of server.js see them\<close>

text \<open>
  The handlers destructure the parsed JSON body (\<^verbatim>\<open>const { email, password, mfa } = req.body || {}\<close>),
  so every request field is an arbitrary JSON value, and a missing field is \<^verbatim>\<open>undefined\<close>.
  Numbers are the integral ones that JavaScript prints in plain decimal digits (magnitude below
  \<open>10^21\<close>); an object or array is kept only through what the handlers can observe of it: it is
  truthy, it is not a string, and \<^verbatim>\<open>String(v)\<close> gives the text it carries.
\<close>

datatype jsval =
    JUndefined
  | JNull
  | JBool bool
  | JNum int
  | JStr string
  | JObj string

text \<open>Truthiness, as used by \<^verbatim>\<open>!v\<close>, \<^verbatim>\<open>a || b\<close> and \<^verbatim>\<open>a && b\<close>.\<close>

fun truthy :: "jsval \<Rightarrow> bool" where
  "truthy JUndefined = False"
| "truthy JNull = False"
| "truthy (JBool b) = b"
| "truthy (JNum n) = (n \<noteq> 0)"
| "truthy (JStr s) = (s \<noteq> [])"
| "truthy (JObj s) = True"

definition js_or :: "jsval \<Rightarrow> jsval \<Rightarrow> jsval" where
  "js_or a b = (if truthy a then a else b)"

text \<open>Decimal digits of a natural number, for \<^verbatim>\<open>String(n)\<close> and \<^verbatim>\<open>'u_' + (users.length + 1)\<close>.\<close>

fun show_nat :: "nat \<Rightarrow> string" where
  "show_nat n =
     (if n < 10 then [''0123456789'' ! n]
      else show_nat (n div 10) @ [''0123456789'' ! (n mod 10)])"

declare show_nat.simps [simp del]

definition show_int :: "int \<Rightarrow> string" where
  "show_int i = (if i < 0 then CHR ''-'' # show_nat (nat (- i)) else show_nat (nat i))"

text \<open>\<^verbatim>\<open>String(v)\<close>.\<close>

fun to_String :: "jsval \<Rightarrow> string" where
  "to_String JUndefined = ''undefined''"
| "to_String JNull = ''null''"
| "to_String (JBool b) = (if b then ''true'' else ''false'')"
| "to_String (JNum n) = show_int n"
| "to_String (JStr s) = s"
| "to_String (JObj s) = s"

section \<open>Errors, responses and the libraries the server imports\<close>

text \<open>
  A handler that throws never reaches \<^verbatim>\<open>res.json\<close>; Express answers 500. \<open>TypeError\<close> is the
  interpreter's own (calling \<^verbatim>\<open>toLowerCase\<close> on a value that has none), \<open>LibraryError\<close> is an
  exception thrown inside bcryptjs or speakeasy.
\<close>

datatype error = TypeError | LibraryError

datatype jwt_error = TokenExpiredError | JsonWebTokenError

text \<open>The object handed to \<^verbatim>\<open>jwt.sign\<close> and the one \<^verbatim>\<open>jwt.verify\<close> returns.\<close>

record payload =
  sub :: jsval
  p_email :: jsval
  p_name :: jsval

record claims = payload +
  iat :: nat
  exp :: nat

datatype body =
    Message string
  | ErrorBody string
  | OkTrue
  | TokenUser string string jsval jsval
  | MeBody string jsval jsval bool
  | SecretBody string string

datatype response = Response nat body

text \<open>
  bcryptjs, speakeasy, jsonwebtoken and the string method \<^verbatim>\<open>toLowerCase\<close> are not part of the
  repository; the handlers are parametrised by them. Randomness (bcrypt's salt, speakeasy's
  secret) is an explicit seed argument and the clock an explicit time in seconds.
\<close>

record libs =
  toLowerCase :: "string \<Rightarrow> string"
  hashSync :: "jsval \<Rightarrow> nat \<Rightarrow> nat \<Rightarrow> error + string"
  compareSync :: "jsval \<Rightarrow> string \<Rightarrow> error + bool"
  totp_verify :: "jsval \<Rightarrow> string \<Rightarrow> nat \<Rightarrow> nat \<Rightarrow> error + bool"
  generateSecret :: "string \<Rightarrow> nat \<Rightarrow> nat \<Rightarrow> string \<times> string"
  jwt_sign :: "payload \<Rightarrow> string \<Rightarrow> string \<Rightarrow> nat \<Rightarrow> string"
  jwt_verify :: "string \<Rightarrow> string \<Rightarrow> nat \<Rightarrow> jwt_error + claims"

section \<open>The in-memory user list\<close>

text \<open>A user object; its field \<^verbatim>\<open>id\<close> is \<open>user_id\<close> here, \<open>id\<close> being HOL's identity function.\<close>

record user =
  user_id :: string
  name :: jsval
  email :: jsval
  passwordHash :: string
  mfaEnabled :: bool
  mfaSecret :: jsval
  mfaTempSecret :: jsval
  resetToken :: jsval

text \<open>
  \<^verbatim>\<open>users.find(pred)\<close>: the first element on which the predicate holds, with its position (the
  handlers mutate the element in place); an exception thrown by the predicate ends the scan.
\<close>

fun js_find :: "('a \<Rightarrow> error + bool) \<Rightarrow> 'a list \<Rightarrow> error + (nat \<times> 'a) option" where
  "js_find p [] = Inr None"
| "js_find p (x # xs) =
     (case p x of
        Inl e \<Rightarrow> Inl e
      | Inr True \<Rightarrow> Inr (Some (0, x))
      | Inr False \<Rightarrow>
          (case js_find p xs of
             Inl e \<Rightarrow> Inl e
           | Inr None \<Rightarrow> Inr None
           | Inr (Some (i, y)) \<Rightarrow> Inr (Some (Suc i, y))))"

text \<open>\<^verbatim>\<open>u => u.email.toLowerCase() === key\<close>: only a string has the method.\<close>

definition email_is :: "libs \<Rightarrow> string \<Rightarrow> user \<Rightarrow> error + bool" where
  "email_is L key u =
     (case email u of
        JStr e \<Rightarrow> Inr (toLowerCase L e = key)
      | _ \<Rightarrow> Inl TypeError)"

text \<open>\<^verbatim>\<open>String(email||'').toLowerCase()\<close>.\<close>

definition email_key :: "libs \<Rightarrow> jsval \<Rightarrow> string" where
  "email_key L e = toLowerCase L (to_String (js_or e (JStr [])))"

text \<open>\<^verbatim>\<open>u => u.id === req.user.sub\<close>.\<close>

definition id_is :: "jsval \<Rightarrow> user \<Rightarrow> error + bool" where
  "id_is s u = Inr (JStr (user_id u) = s)"

text \<open>\<^verbatim>\<open>u => u.resetToken && u.resetToken === token\<close>.\<close>

definition resetToken_is :: "jsval \<Rightarrow> user \<Rightarrow> error + bool" where
  "resetToken_is t u = Inr (truthy (resetToken u) \<and> resetToken u = t)"

text \<open>\<^verbatim>\<open>process.env.JWT_SECRET || 'dev-secret'\<close>.\<close>

definition JWT_SECRET :: "string option \<Rightarrow> string" where
  "JWT_SECRET env = (case env of Some s \<Rightarrow> (if s = [] then ''dev-secret'' else s) | None \<Rightarrow> ''dev-secret'')"

definition generateToken :: "libs \<Rightarrow> string \<Rightarrow> nat \<Rightarrow> user \<Rightarrow> string" where
  "generateToken L secret now u =
     jwt_sign L \<lparr>sub = JStr (user_id u), p_email = email u, p_name = name u\<rparr> secret ''1h'' now"

datatype auth = Reject response | Next claims

text \<open>\<^verbatim>\<open>authMiddleware\<close>; the header is \<^verbatim>\<open>req.headers.authorization || ''\<close>.\<close>

definition authMiddleware :: "libs \<Rightarrow> string \<Rightarrow> nat \<Rightarrow> string option \<Rightarrow> auth" where
  "authMiddleware L secret now authorization =
     (let hdr = (case authorization of Some h \<Rightarrow> h | None \<Rightarrow> []);
          token = (if take 7 hdr = ''Bearer '' then JStr (drop 7 hdr) else JNull)
      in if \<not> truthy token then Reject (Response 401 (Message ''Missing token''))
         else (case jwt_verify L (to_String token) secret now of
                 Inr c \<Rightarrow> Next c
               | Inl e \<Rightarrow> Reject (Response 401 (Message ''Invalid token''))))"

section \<open>Auth routes\<close>

type_synonym result = "error + response \<times> user list"

text \<open>The tail of the login handler: \<^verbatim>\<open>res.json({ token, user: { id, name, email } })\<close>.\<close>

definition login_success :: "libs \<Rightarrow> string \<Rightarrow> nat \<Rightarrow> user list \<Rightarrow> user \<Rightarrow> result" where
  "login_success L secret now users u =
     Inr (Response 200 (TokenUser (generateToken L secret now u) (user_id u) (name u) (email u)), users)"

definition login :: "libs \<Rightarrow> string \<Rightarrow> nat \<Rightarrow> user list \<Rightarrow> jsval \<Rightarrow> jsval \<Rightarrow> jsval \<Rightarrow> result" where
  "login L secret now users em password mfa =
     (case js_find (email_is L (email_key L em)) users of
        Inl e \<Rightarrow> Inl e
      | Inr None \<Rightarrow> Inr (Response 401 (Message ''Invalid email or password''), users)
      | Inr (Some (i, u)) \<Rightarrow>
          (case compareSync L (js_or password (JStr [])) (passwordHash u) of
             Inl e \<Rightarrow> Inl e
           | Inr ok \<Rightarrow>
               if \<not> ok then Inr (Response 401 (Message ''Invalid email or password''), users)
               else if mfaEnabled u then
                 (if \<not> truthy mfa then Inr (Response 401 (Message ''MFA code required''), users)
                  else (case totp_verify L (mfaSecret u) (to_String mfa) 1 now of
                          Inl e \<Rightarrow> Inl e
                        | Inr verified \<Rightarrow>
                            if \<not> verified
                            then Inr (Response 401 (Message ''Invalid MFA code''), users)
                            else login_success L secret now users u))
               else login_success L secret now users u))"

text \<open>\<^verbatim>\<open>GET /api/auth/me\<close>, after \<^verbatim>\<open>authMiddleware\<close> has set \<^verbatim>\<open>req.user\<close>.\<close>

definition me :: "user list \<Rightarrow> jsval \<Rightarrow> result" where
  "me users s =
     (case js_find (id_is s) users of
        Inl e \<Rightarrow> Inl e
      | Inr None \<Rightarrow> Inr (Response 401 (Message ''Not found''), users)
      | Inr (Some (i, u)) \<Rightarrow> Inr (Response 200 (MeBody (user_id u) (name u) (email u) (mfaEnabled u)), users))"

text \<open>\<^verbatim>\<open>users.some(pred)\<close>.\<close>

fun js_some :: "('a \<Rightarrow> error + bool) \<Rightarrow> 'a list \<Rightarrow> error + bool" where
  "js_some p [] = Inr False"
| "js_some p (x # xs) =
     (case p x of
        Inl e \<Rightarrow> Inl e
      | Inr True \<Rightarrow> Inr True
      | Inr False \<Rightarrow> js_some p xs)"

text \<open>The record that register builds: MFA off, no secrets, no reset token.\<close>

definition new_user :: "string \<Rightarrow> jsval \<Rightarrow> jsval \<Rightarrow> string \<Rightarrow> user" where
  "new_user uid nm em h =
     \<lparr>user_id = uid, name = nm, email = em, passwordHash = h, mfaEnabled = False, mfaSecret = JNull,
      mfaTempSecret = JNull, resetToken = JNull\<rparr>"

definition register :: "libs \<Rightarrow> string \<Rightarrow> nat \<Rightarrow> nat \<Rightarrow> user list \<Rightarrow> jsval \<Rightarrow> jsval \<Rightarrow> jsval \<Rightarrow> result" where
  "register L secret now sd users nm em password =
     (if \<not> truthy nm \<or> \<not> truthy em \<or> \<not> truthy password
      then Inr (Response 400 (Message ''Missing fields''), users)
      else (case js_some (email_is L (email_key L em)) users of
              Inl e \<Rightarrow> Inl e
            | Inr exists \<Rightarrow>
                if exists then Inr (Response 409 (Message ''Email already registered''), users)
                else
                  (let uid = ''u_'' @ show_nat (length users + 1)
                   in case hashSync L password 10 sd of
                        Inl e \<Rightarrow> Inl e
                      | Inr h \<Rightarrow>
                          (let u = new_user uid nm em h
                           in Inr (Response 201 (TokenUser (generateToken L secret now u) uid nm em),
                                   users @ [u])))))"

text \<open>
  \<^verbatim>\<open>POST /api/auth/forgot-password\<close>. \<open>r1\<close> and \<open>r2\<close> are the two texts
  \<^verbatim>\<open>Math.random().toString(36)\<close>; \<^verbatim>\<open>slice(2)\<close> drops the leading \<^verbatim>\<open>0.\<close> of each. The token
  goes to the console only, never into the response.
\<close>

definition forgot_password :: "libs \<Rightarrow> string \<Rightarrow> string \<Rightarrow> user list \<Rightarrow> jsval \<Rightarrow> result" where
  "forgot_password L r1 r2 users em =
     (case js_find (email_is L (email_key L em)) users of
        Inl e \<Rightarrow> Inl e
      | Inr None \<Rightarrow> Inr (Response 200 OkTrue, users)
      | Inr (Some (i, u)) \<Rightarrow>
          Inr (Response 200 OkTrue, users[i := u\<lparr>resetToken := JStr (drop 2 r1 @ drop 2 r2)\<rparr>]))"

definition reset_password :: "libs \<Rightarrow> nat \<Rightarrow> user list \<Rightarrow> jsval \<Rightarrow> jsval \<Rightarrow> result" where
  "reset_password L seed users token newPassword =
     (case js_find (resetToken_is token) users of
        Inl e \<Rightarrow> Inl e
      | Inr None \<Rightarrow> Inr (Response 400 (Message ''Invalid token''), users)
      | Inr (Some (i, u)) \<Rightarrow>
          (case hashSync L (js_or newPassword (JStr [])) 10 seed of
             Inl e \<Rightarrow> Inl e
           | Inr h \<Rightarrow> Inr (Response 200 OkTrue, users[i := u\<lparr>passwordHash := h, resetToken := JNull\<rparr>])))"

definition magic_link :: "user list \<Rightarrow> jsval \<Rightarrow> result" where
  "magic_link users em = Inr (Response 200 OkTrue, users)"

section \<open>MFA routes\<close>

text \<open>
  The three routes run behind \<^verbatim>\<open>authRequired\<close>, which has stored the verified token's payload
  in \<^verbatim>\<open>req.user\<close>; \<open>s\<close> is \<^verbatim>\<open>req.user.sub\<close>.
\<close>

definition mfa_setup :: "libs \<Rightarrow> nat \<Rightarrow> user list \<Rightarrow> jsval \<Rightarrow> result" where
  "mfa_setup L seed users s =
     (case js_find (id_is s) users of
        Inl e \<Rightarrow> Inl e
      | Inr None \<Rightarrow> Inr (Response 404 (ErrorBody ''User not found''), users)
      | Inr (Some (i, u)) \<Rightarrow>
          (case generateSecret L (''Bondfire ('' @ to_String (email u) @ '')'') 20 seed of
             (base32, otpauth_url) \<Rightarrow>
               Inr (Response 200 (SecretBody base32 otpauth_url),
                    users[i := u\<lparr>mfaTempSecret := JStr base32\<rparr>])))"

definition mfa_verify :: "libs \<Rightarrow> nat \<Rightarrow> user list \<Rightarrow> jsval \<Rightarrow> jsval \<Rightarrow> jsval \<Rightarrow> result" where
  "mfa_verify L now users s token secret =
     (case js_find (id_is s) users of
        Inl e \<Rightarrow> Inl e
      | Inr None \<Rightarrow> Inr (Response 404 (ErrorBody ''User not found''), users)
      | Inr (Some (i, u)) \<Rightarrow>
          (let base32 = js_or secret (mfaTempSecret u)
           in if \<not> truthy token \<or> \<not> truthy base32
              then Inr (Response 400 (ErrorBody ''Missing token or secret''), users)
              else (case totp_verify L base32 (to_String token) 1 now of
                      Inl e \<Rightarrow> Inl e
                    | Inr ok \<Rightarrow>
                        if \<not> ok then Inr (Response 400 (ErrorBody ''Invalid code''), users)
                        else Inr (Response 200 OkTrue,
                                  users[i := u\<lparr>mfaEnabled := True, mfaSecret := base32,
                                               mfaTempSecret := JNull\<rparr>]))))"

definition mfa_disable :: "user list \<Rightarrow> jsval \<Rightarrow> result" where
  "mfa_disable users s =
     (case js_find (id_is s) users of
        Inl e \<Rightarrow> Inl e
      | Inr None \<Rightarrow> Inr (Response 404 (ErrorBody ''User not found''), users)
      | Inr (Some (i, u)) \<Rightarrow>
          Inr (Response 200 OkTrue,
               users[i := u\<lparr>mfaEnabled := False, mfaSecret := JNull, mfaTempSecret := JNull\<rparr>]))"

section \<open>Routing\<close>

text \<open>
  One request to one of the auth or MFA routes, with what the handler reads of it. What the
  handler draws from outside (clock, salt seed, the two random texts) comes in \<open>world\<close>;
  \<open>env\<close> is the environment variable \<^verbatim>\<open>JWT_SECRET\<close>, if set.
\<close>

datatype request =
    Login jsval jsval jsval
  | Me jsval
  | Register jsval jsval jsval
  | ForgotPassword jsval
  | ResetPassword jsval jsval
  | MagicLink jsval
  | MfaSetup jsval
  | MfaVerify jsval jsval jsval
  | MfaDisable jsval

record world =
  clock :: nat
  seed :: nat
  random1 :: string
  random2 :: string

fun handle :: "libs \<Rightarrow> string option \<Rightarrow> world \<Rightarrow> user list \<Rightarrow> request \<Rightarrow> result" where
  "handle L env w users (Login em password mfa) =
     login L (JWT_SECRET env) (clock w) users em password mfa"
| "handle L env w users (Me s) = me users s"
| "handle L env w users (Register nm em password) =
     register L (JWT_SECRET env) (clock w) (seed w) users nm em password"
| "handle L env w users (ForgotPassword em) = forgot_password L (random1 w) (random2 w) users em"
| "handle L env w users (ResetPassword token newPassword) =
     reset_password L (seed w) users token newPassword"
| "handle L env w users (MagicLink em) = magic_link users em"
| "handle L env w users (MfaSetup s) = mfa_setup L (seed w) users s"
| "handle L env w users (MfaVerify s token secret) = mfa_verify L (clock w) users s token secret"
| "handle L env w users (MfaDisable s) = mfa_disable users s"

text \<open>The list the server starts with; \<open>h\<close> is \<^verbatim>\<open>bcrypt.hashSync('password123', 10)\<close>.\<close>

definition seed_users :: "string \<Rightarrow> user list" where
  "seed_users h =
     [\<lparr>user_id = ''u_1'', name = JStr ''Test User'', email = JStr ''test@bondfire.org'',
       passwordHash = h, mfaEnabled = False, mfaSecret = JNull, mfaTempSecret = JNull,
       resetToken = JNull\<rparr>]"

section \<open>Holding a reset token\<close>

text \<open>
  The user at position \<open>i\<close> holds the unconsumed reset token \<open>t\<close>: the token is a non-empty
  text stored on that record, and it names that record only. The server draws tokens from
  \<^verbatim>\<open>Math.random\<close> and never compares a new one with those already stored; that a token
  names one user is the usual idealisation of a random draw.
\<close>

definition holds_token :: "user list \<Rightarrow> nat \<Rightarrow> string \<Rightarrow> bool" where
  "holds_token users i t =
     (i < length users \<and> t \<noteq> [] \<and> resetToken (users ! i) = JStr t \<and>
      (\<forall>j<length users. j \<noteq> i \<longrightarrow> resetToken (users ! j) \<noteq> JStr t))"

section \<open>The invariant of the MFA fields\<close>

definition present :: "jsval \<Rightarrow> bool" where
  "present v = (v \<noteq> JNull \<and> v \<noteq> JUndefined)"

definition mfa_consistent :: "user \<Rightarrow> bool" where
  "mfa_consistent u = (present (mfaSecret u) = mfaEnabled u)"

section \<open>An executable stand-in for the libraries\<close>

text \<open>
  To run the handlers on concrete requests the libraries need values. \<open>demo_libs\<close> is a small
  deterministic stand-in with the libraries' interface: ASCII lower-casing, a "hash" that
  tags the password, a time-step code derived from the secret's length, and a token that
  lists its claims, the expiry and the signing secret, separated by bars.
\<close>

definition lower_char :: "char \<Rightarrow> char" where
  "lower_char c =
     (let n = (of_char c :: nat) in if 65 \<le> n \<and> n \<le> 90 then char_of (n + 32) else c)"

definition demo_hashSync :: "jsval \<Rightarrow> nat \<Rightarrow> nat \<Rightarrow> error + string" where
  "demo_hashSync pw cost sd =
     (case pw of JStr p \<Rightarrow> Inr (''$2a$'' @ show_nat cost @ ''$'' @ p) | _ \<Rightarrow> Inl LibraryError)"

definition demo_compareSync :: "jsval \<Rightarrow> string \<Rightarrow> error + bool" where
  "demo_compareSync pw h =
     (case pw of JStr p \<Rightarrow> Inr (h = ''$2a$10$'' @ p) | _ \<Rightarrow> Inl LibraryError)"

definition demo_code :: "string \<Rightarrow> nat \<Rightarrow> string" where
  "demo_code s step = show_nat (100000 + (length s + step) mod 900000)"

definition demo_totp_verify :: "jsval \<Rightarrow> string \<Rightarrow> nat \<Rightarrow> nat \<Rightarrow> error + bool" where
  "demo_totp_verify secret token window now =
     (case secret of
        JStr s \<Rightarrow>
          Inr (token \<in> set (map (demo_code s) [now div 30 - window ..< now div 30 + window + 1]))
      | _ \<Rightarrow> Inl LibraryError)"

definition demo_generateSecret :: "string \<Rightarrow> nat \<Rightarrow> nat \<Rightarrow> string \<times> string" where
  "demo_generateSecret label len sd =
     (let base32 = take len ''JBSWY3DPEHPK3PXPJBSWY3DPEHPK3PXP'' @ show_nat sd
      in (base32, ''otpauth://totp/'' @ label @ ''?secret='' @ base32))"

fun split_bar :: "string \<Rightarrow> string list" where
  "split_bar [] = [[]]"
| "split_bar (c # cs) =
     (if c = CHR ''|'' then [] # split_bar cs
      else (case split_bar cs of [] \<Rightarrow> [[c]] | f # fs \<Rightarrow> (c # f) # fs))"

definition read_nat :: "string \<Rightarrow> nat" where
  "read_nat s = foldl (\<lambda>a c. 10 * a + (of_char c - 48)) 0 s"

definition demo_jwt_sign :: "payload \<Rightarrow> string \<Rightarrow> string \<Rightarrow> nat \<Rightarrow> string" where
  "demo_jwt_sign p secret expiresIn now =
     (let ttl = (if expiresIn = ''1h'' then 3600 else 0)
      in to_String (sub p) @ ''|'' @ to_String (p_email p) @ ''|'' @ to_String (p_name p) @ ''|'' @
         show_nat now @ ''|'' @ show_nat (now + ttl) @ ''|'' @ secret)"

definition demo_jwt_verify :: "string \<Rightarrow> string \<Rightarrow> nat \<Rightarrow> jwt_error + claims" where
  "demo_jwt_verify token secret now =
     (case split_bar token of
        [s, e, n, i, x, k] \<Rightarrow>
          if k \<noteq> secret then Inl JsonWebTokenError
          else if read_nat x \<le> now then Inl TokenExpiredError
          else Inr \<lparr>sub = JStr s, p_email = JStr e, p_name = JStr n, iat = read_nat i, exp = read_nat x\<rparr>
      | _ \<Rightarrow> Inl JsonWebTokenError)"

text \<open>The seed list under the stand-in hash, and a second user as register would add her.\<close>

definition demo_users :: "user list" where
  "demo_users = seed_users ''$2a$10$password123''"

definition demo_ann :: user where
  "demo_ann = new_user ''u_2'' (JStr ''Ann'') (JStr ''ann@bondfire.org'') ''$2a$10$hunter2''"

text \<open>A user as register adds her when the request's email is the JSON number 123.\<close>

definition demo_eve :: user where
  "demo_eve = new_user ''u_2'' (JStr ''Eve'') (JNum 123) ''$2a$10$pw''"

text \<open>The seed user with MFA switched on under the secret \<^verbatim>\<open>JBSWY\<close>.\<close>

definition demo_enabled :: "user list" where
  "demo_enabled = [(hd demo_users)\<lparr>mfaEnabled := True, mfaSecret := JStr ''JBSWY''\<rparr>]"

text \<open>The seed user after \<^verbatim>\<open>GET /api/auth/mfa/setup\<close> with seed 7: a pending secret, MFA still off.\<close>

definition demo_pending :: "user list" where
  "demo_pending = [(hd demo_users)\<lparr>mfaTempSecret := JStr ''JBSWY3DPEHPK3PXPJBSW7''\<rparr>]"

text \<open>Both users, the seed user holding the reset token \<^verbatim>\<open>k3j2h1x9y8z7\<close>.\<close>

definition demo_reset :: "user list" where
  "demo_reset = [(hd demo_users)\<lparr>resetToken := JStr ''k3j2h1x9y8z7''\<rparr>, demo_ann]"

definition demo_libs :: libs where
  "demo_libs =
     \<lparr>toLowerCase = map lower_char, hashSync = demo_hashSync, compareSync = demo_compareSync,
      totp_verify = demo_totp_verify, generateSecret = demo_generateSecret,
      jwt_sign = demo_jwt_sign, jwt_verify = demo_jwt_verify\<rparr>"


section \<open>Facts about the list scans\<close>

lemma js_find_SomeD:
  "js_find p xs = Inr (Some (i, x)) \<Longrightarrow> i < length xs \<and> xs ! i = x \<and> p x = Inr True"
proof (induction xs arbitrary: i)
  case Nil
  then show ?case by simp
next
  case (Cons a xs)
  then show ?case
    by (auto split: sum.splits bool.splits option.splits if_splits)
qed


lemma js_find_total_first:
  "i < length xs \<Longrightarrow> P (xs ! i) \<Longrightarrow> \<forall>j<i. \<not> P (xs ! j) \<Longrightarrow>
     js_find (\<lambda>x. Inr (P x)) xs = Inr (Some (i, xs ! i))"
proof (induction xs arbitrary: i)
  case Nil
  then show ?case by simp
next
  case (Cons a xs)
  show ?case
  proof (cases i)
    case 0
    with Cons.prems show ?thesis by simp
  next
    case (Suc k)
    with Cons.prems have a: "\<not> P a" by auto
    from Suc Cons.prems have "k < length xs" "P (xs ! k)" "\<forall>j<k. \<not> P (xs ! j)" by auto
    then have "js_find (\<lambda>x. Inr (P x)) xs = Inr (Some (k, xs ! k))" by (rule Cons.IH)
    with a Suc show ?thesis by simp
  qed
qed

lemma js_some_find:
  "js_some p xs = (case js_find p xs of Inl e \<Rightarrow> Inl e | Inr r \<Rightarrow> Inr (r \<noteq> None))"
  by (induction xs) (auto split: sum.splits bool.splits option.splits)

lemma js_find_append_None:
  "js_find p xs = Inr None \<Longrightarrow>
     js_find p (xs @ [y]) =
       (case p y of Inl e \<Rightarrow> Inl e | Inr b \<Rightarrow> if b then Inr (Some (length xs, y)) else Inr None)"
  by (induction xs) (auto split: sum.splits bool.splits option.splits)

lemma js_some_False_find: "js_some p xs = Inr False \<Longrightarrow> js_find p xs = Inr None"
  by (induction xs) (auto split: sum.splits bool.splits option.splits)

lemma email_key_JStr: "e \<noteq> [] \<Longrightarrow> email_key L (JStr e) = toLowerCase L e"
  by (simp add: email_key_def js_or_def)

lemma list_all_update: "list_all P xs \<Longrightarrow> P y \<Longrightarrow> list_all P (xs[i := y])"
  by (induction xs arbitrary: i) (auto split: nat.splits)

lemma list_all_nth: "list_all P xs \<Longrightarrow> i < length xs \<Longrightarrow> P (xs ! i)"
  by (simp add: list_all_length)

section \<open>Register and login on a fresh email\<close>

lemma register_new_user:
  assumes "truthy nm" "truthy em" "truthy pw"
    and "js_some (email_is L (email_key L em)) users = Inr False"
    and "hashSync L pw 10 sd = Inr h"
    and "uid = ''u_'' @ show_nat (length users + 1)"
  shows "register L secret now sd users nm em pw =
           Inr (Response 201 (TokenUser (generateToken L secret now (new_user uid nm em h)) uid nm em),
                users @ [new_user uid nm em h])"
  using assms by (simp add: register_def Let_def)

lemma login_new_user:
  assumes none: "js_find (email_is L (email_key L (JStr e))) users = Inr None"
    and e: "e \<noteq> []" and p: "p \<noteq> []"
    and cmp: "compareSync L (JStr p) h = Inr True"
  shows "login L secret now (users @ [new_user uid nm (JStr e) h]) (JStr e) (JStr p) mfa =
           Inr (Response 200 (TokenUser (generateToken L secret now (new_user uid nm (JStr e) h)) uid nm (JStr e)),
                users @ [new_user uid nm (JStr e) h])"
proof -
  let ?u = "new_user uid nm (JStr e) h"
  have hit: "email_is L (email_key L (JStr e)) ?u = Inr True"
    using e by (simp add: email_is_def email_key_JStr new_user_def)
  have found: "js_find (email_is L (email_key L (JStr e))) (users @ [?u]) = Inr (Some (length users, ?u))"
    using js_find_append_None [OF none, of ?u] hit by simp
  have orp: "js_or (JStr p) (JStr []) = JStr p"
    using p by (simp add: js_or_def)
  have fields: "passwordHash ?u = h" "\<not> mfaEnabled ?u" "name ?u = nm" "email ?u = JStr e" "user_id ?u = uid"
    by (simp_all add: new_user_def)
  show ?thesis
    using cmp by (simp add: login_def found orp login_success_def fields)
qed

section \<open>The stand-in at work\<close>

lemma demo_fresh_ann:
  "js_some (email_is demo_libs (email_key demo_libs (JStr ''ann@bondfire.org''))) demo_users = Inr False"
  by (simp add: demo_users_def seed_users_def demo_libs_def email_is_def email_key_def js_or_def
      lower_char_def)

lemma demo_hash_ann: "hashSync demo_libs (JStr ''hunter2'') 10 7 = Inr ''$2a$10$hunter2''"
  by (simp add: demo_libs_def demo_hashSync_def show_nat.simps)

lemma demo_cmp_ann: "compareSync demo_libs (JStr ''hunter2'') ''$2a$10$hunter2'' = Inr True"
  by (simp add: demo_libs_def demo_compareSync_def)

lemma demo_uid_ann: "''u_2'' = ''u_'' @ show_nat (length demo_users + 1)"
  by (simp add: demo_users_def seed_users_def show_nat.simps)

lemma demo_register_ann:
  "register demo_libs ''dev-secret'' 1000 7 demo_users (JStr ''Ann'') (JStr ''ann@bondfire.org'')
       (JStr ''hunter2'') =
     Inr (Response 201 (TokenUser (generateToken demo_libs ''dev-secret'' 1000 demo_ann) ''u_2''
            (JStr ''Ann'') (JStr ''ann@bondfire.org'')), demo_users @ [demo_ann])"
  unfolding demo_ann_def
  by (rule register_new_user [OF _ _ _ demo_fresh_ann demo_hash_ann demo_uid_ann]) simp_all

lemma demo_register_eve:
  "register demo_libs ''dev-secret'' 1000 7 demo_users (JStr ''Eve'') (JNum 123) (JStr ''pw'') =
     Inr (Response 201 (TokenUser (generateToken demo_libs ''dev-secret'' 1000 demo_eve) ''u_2''
            (JStr ''Eve'') (JNum 123)), demo_users @ [demo_eve])"
proof -
  have fresh: "js_some (email_is demo_libs (email_key demo_libs (JNum 123))) demo_users = Inr False"
    by (simp add: demo_users_def seed_users_def demo_libs_def email_is_def email_key_def js_or_def
        lower_char_def show_int_def show_nat.simps)
  have hash: "hashSync demo_libs (JStr ''pw'') 10 7 = Inr ''$2a$10$pw''"
    by (simp add: demo_libs_def demo_hashSync_def show_nat.simps)
  show ?thesis
    unfolding demo_eve_def
    by (rule register_new_user [OF _ _ _ fresh hash demo_uid_ann]) simp_all
qed

lemma demo_same_key:
  "email_key demo_libs (JStr ''ANN@Bondfire.ORG'') = email_key demo_libs (JStr ''ann@bondfire.org'')"
  by code_simp

lemma demo_ann_fields:
  "user_id demo_ann = ''u_2''" "email demo_ann = JStr ''ann@bondfire.org''" "name demo_ann = JStr ''Ann''"
  by (simp_all add: demo_ann_def new_user_def)

lemma demo_find_u1: "js_find (id_is (JStr ''u_1'')) demo_pending = Inr (Some (0, hd demo_pending))"
  by (simp add: demo_pending_def demo_users_def seed_users_def id_is_def)

lemma demo_totp_evil: "totp_verify demo_libs (JStr ''EVIL'') (to_String (JStr ''100037'')) 1 1000 = Inr True"
  by (simp add: demo_libs_def demo_totp_verify_def demo_code_def show_nat.simps)

lemma demo_verify_evil:
  "mfa_verify demo_libs 1000 demo_pending (JStr ''u_1'') (JStr ''100037'') (JStr ''EVIL'') =
     Inr (Response 200 OkTrue,
          [(hd demo_users)\<lparr>mfaEnabled := True, mfaSecret := JStr ''EVIL'', mfaTempSecret := JNull\<rparr>])"
  using demo_totp_evil
  by (simp add: mfa_verify_def demo_find_u1 js_or_def Let_def) (simp add: demo_pending_def)

lemma demo_token_ann:
  "generateToken demo_libs ''dev-secret'' 1000 demo_ann = ''u_2|ann@bondfire.org|Ann|1000|4600|dev-secret''"
  by (simp add: generateToken_def demo_libs_def demo_jwt_sign_def demo_ann_def new_user_def show_nat.simps)

lemma demo_token_foreign:
  "generateToken demo_libs ''other-secret'' 1000 demo_ann =
     ''u_2|ann@bondfire.org|Ann|1000|4600|other-secret''"
  by (simp add: generateToken_def demo_libs_def demo_jwt_sign_def demo_ann_def new_user_def show_nat.simps)

lemma demo_verify_ann:
  "jwt_verify demo_libs ''u_2|ann@bondfire.org|Ann|1000|4600|dev-secret'' ''dev-secret'' 1000 =
     Inr \<lparr>sub = JStr ''u_2'', p_email = JStr ''ann@bondfire.org'', p_name = JStr ''Ann'', iat = 1000, exp = 4600\<rparr>"
  by (simp add: demo_libs_def demo_jwt_verify_def read_nat_def)

lemma demo_expired:
  "jwt_verify demo_libs ''u_2|ann@bondfire.org|Ann|1000|4600|dev-secret'' ''dev-secret'' 5000 =
     Inl TokenExpiredError"
  by (simp add: demo_libs_def demo_jwt_verify_def read_nat_def)

lemma demo_foreign:
  "jwt_verify demo_libs ''u_2|ann@bondfire.org|Ann|1000|4600|other-secret'' ''dev-secret'' 1000 =
     Inl JsonWebTokenError"
  by (simp add: demo_libs_def demo_jwt_verify_def read_nat_def)

section \<open>Enabling MFA with a supplied secret\<close>

text \<open>
  C1, as the handler has it. When the request carries a secret, the handler takes it in place
  of the pending one and never compares the two. The call succeeds exactly when the submitted
  code is non-empty and the TOTP check of that code against the supplied secret (window 1)
  passes; then the supplied secret becomes \<open>mfaSecret\<close>, \<open>mfaEnabled\<close> becomes true and the
  pending secret is cleared. Any other response leaves the user list as it was.
\<close>

theorem mfa_verify_supplied_secret:
  assumes supplied: "truthy secret'"
    and found: "js_find (id_is s) users = Inr (Some (i, u))"
  shows "(mfa_verify L now users s token secret' = Inr (Response 200 OkTrue, users') \<longleftrightarrow>
            truthy token \<and> totp_verify L secret' (to_String token) 1 now = Inr True \<and>
            users' = users[i := u\<lparr>mfaEnabled := True, mfaSecret := secret', mfaTempSecret := JNull\<rparr>]) \<and>
         (mfa_verify L now users s token secret' = Inr (r, users') \<and> r \<noteq> Response 200 OkTrue \<longrightarrow>
            users' = users)"
proof -
  have b: "js_or secret' (mfaTempSecret u) = secret'"
    using supplied by (simp add: js_or_def)
  show ?thesis
  proof (cases "truthy token")
    case False
    then show ?thesis using supplied by (auto simp: mfa_verify_def found Let_def)
  next
    case True
    show ?thesis
    proof (cases "totp_verify L secret' (to_String token) 1 now")
      case (Inl e)
      then show ?thesis using True supplied by (simp add: mfa_verify_def found Let_def b)
    next
      case (Inr ok)
      then show ?thesis using True supplied by (auto simp: mfa_verify_def found Let_def b)
    qed
  qed
qed

theorem mfa_verify_supplied_secret_witness:
  "mfa_verify demo_libs 1000 demo_pending (JStr ''u_1'') (JStr ''100037'') (JStr ''EVIL'') =
     Inr (Response 200 OkTrue,
          demo_pending[0 := (hd demo_pending)\<lparr>mfaEnabled := True, mfaSecret := JStr ''EVIL'',
                                              mfaTempSecret := JNull\<rparr>])"
proof -
  have supplied: "truthy (JStr ''EVIL'')" by simp
  have tok: "truthy (JStr ''100037'')" by simp
  from mfa_verify_supplied_secret [OF supplied demo_find_u1, THEN conjunct1, THEN iffD2,
      OF conjI [OF tok conjI [OF demo_totp_evil refl]]]
  show ?thesis .
qed

text \<open>
  The seed user asks for a setup and is given the pending secret \<^verbatim>\<open>JBSWY3DPEHPK3PXPJBSW7\<close>.
  A verify request that carries the different secret \<^verbatim>\<open>EVIL\<close> and a code valid for
  \<^verbatim>\<open>EVIL\<close> is accepted: MFA is on, with \<^verbatim>\<open>EVIL\<close> as the active secret.
\<close>

theorem mfa_verify_secret_counterexample:
  "mfa_setup demo_libs 7 demo_users (JStr ''u_1'') =
     Inr (Response 200 (SecretBody ''JBSWY3DPEHPK3PXPJBSW7''
            ''otpauth://totp/Bondfire (test@bondfire.org)?secret=JBSWY3DPEHPK3PXPJBSW7''), demo_pending) \<and>
   mfaTempSecret (hd demo_pending) = JStr ''JBSWY3DPEHPK3PXPJBSW7'' \<and>
   mfa_verify demo_libs 1000 demo_pending (JStr ''u_1'') (JStr ''100037'') (JStr ''EVIL'') =
     Inr (Response 200 OkTrue,
          [(hd demo_users)\<lparr>mfaEnabled := True, mfaSecret := JStr ''EVIL'', mfaTempSecret := JNull\<rparr>])"
proof -
  have 1: "mfa_setup demo_libs 7 demo_users (JStr ''u_1'') =
     Inr (Response 200 (SecretBody ''JBSWY3DPEHPK3PXPJBSW7''
            ''otpauth://totp/Bondfire (test@bondfire.org)?secret=JBSWY3DPEHPK3PXPJBSW7''), demo_pending)"
    by (simp add: mfa_setup_def demo_pending_def demo_users_def seed_users_def id_is_def demo_libs_def
        demo_generateSecret_def show_nat.simps Let_def)
  have 2: "mfaTempSecret (hd demo_pending) = JStr ''JBSWY3DPEHPK3PXPJBSW7''"
    by (simp add: demo_pending_def)
  from 1 2 demo_verify_evil show ?thesis by simp
qed

section \<open>A reset token works once\<close>

lemma resetToken_is_fun:
  "resetToken_is t = (\<lambda>u. Inr (truthy (resetToken u) \<and> resetToken u = t))"
  by (rule ext) (simp add: resetToken_is_def)

lemma find_token_holder:
  assumes "holds_token users i t"
  shows "js_find (resetToken_is (JStr t)) users = Inr (Some (i, users ! i))"
  unfolding resetToken_is_fun
proof (rule js_find_total_first)
  from assms show "i < length users" by (simp add: holds_token_def)
  from assms show "truthy (resetToken (users ! i)) \<and> resetToken (users ! i) = JStr t"
    by (simp add: holds_token_def)
  from assms show "\<forall>j<i. \<not> (truthy (resetToken (users ! j)) \<and> resetToken (users ! j) = JStr t)"
    by (auto simp: holds_token_def)
qed



lemma reset_password_holder:
  assumes "holds_token users i t" and "hashSync L (js_or pw (JStr [])) 10 sd = Inr h"
  shows "reset_password L sd users (JStr t) pw =
           Inr (Response 200 OkTrue, users[i := (users ! i)\<lparr>passwordHash := h, resetToken := JNull\<rparr>])"
  using assms by (simp add: reset_password_def find_token_holder)






lemma demo_reset_held: "holds_token demo_reset 0 ''k3j2h1x9y8z7''"
  by (simp add: holds_token_def demo_reset_def demo_ann_def new_user_def less_Suc_eq)

lemma demo_hash_empty: "hashSync demo_libs (JStr []) 10 5 = Inr ''$2a$10$''"
  by (simp add: demo_libs_def demo_hashSync_def show_nat.simps)



section \<open>Login failures\<close>

text \<open>
  When the scan of the list completes, a login whose email matches no user and a login whose
  password fails the bcrypt comparison get the same answer: status 401 with the message
  \<^verbatim>\<open>Invalid email or password\<close>, and the user list is untouched.
\<close>

lemma login_invalid_credentials:
  "(js_find (email_is L (email_key L em)) users = Inr None \<longrightarrow>
      login L secret now users em password mfa =
        Inr (Response 401 (Message ''Invalid email or password''), users)) \<and>
   (js_find (email_is L (email_key L em')) users = Inr (Some (i, u)) \<and>
    compareSync L (js_or password' (JStr [])) (passwordHash u) = Inr False \<longrightarrow>
      login L secret now users em' password' mfa' =
        Inr (Response 401 (Message ''Invalid email or password''), users))"
  by (simp add: login_def)

lemma demo_find_nobody:
  "js_find (email_is demo_libs (email_key demo_libs (JStr ''nobody@bondfire.org''))) demo_users = Inr None"
  by (simp add: demo_users_def seed_users_def demo_libs_def email_is_def email_key_def js_or_def
      lower_char_def)

lemma demo_find_test:
  "js_find (email_is demo_libs (email_key demo_libs (JStr ''Test@Bondfire.org''))) demo_users =
     Inr (Some (0, hd demo_users))"
  by code_simp

lemma demo_wrong:
  "compareSync demo_libs (js_or (JStr ''wrong'') (JStr [])) (passwordHash (hd demo_users)) = Inr False"
  by (simp add: demo_users_def seed_users_def demo_libs_def demo_compareSync_def js_or_def)

lemma login_invalid_credentials_demo:
  "login demo_libs ''dev-secret'' 1000 demo_users (JStr ''nobody@bondfire.org'') (JStr ''password123'') JUndefined =
     Inr (Response 401 (Message ''Invalid email or password''), demo_users) \<and>
   login demo_libs ''dev-secret'' 1000 demo_users (JStr ''Test@Bondfire.org'') (JStr ''wrong'') JUndefined =
     Inr (Response 401 (Message ''Invalid email or password''), demo_users)"
  using login_invalid_credentials [of demo_libs "JStr ''nobody@bondfire.org''" demo_users
      "''dev-secret''" 1000 "JStr ''password123''" JUndefined "JStr ''Test@Bondfire.org''" 0 "hd demo_users"
      "JStr ''wrong''" JUndefined]
    demo_find_nobody demo_find_test demo_wrong
  by blast

text \<open>
  C3 does not hold on every list the server can reach. Register tests the email for
  truthiness only and stores it as it came, so the request with the email 123 (a JSON number)
  is answered 201 and leaves a record whose email is no string. On that list a login with an
  email that matches no user throws a TypeError at \<^verbatim>\<open>u.email.toLowerCase()\<close> (Express answers
  500), while the seed user's email with a wrong password is still answered 401
  \<^verbatim>\<open>Invalid email or password\<close>: the two failures are told apart.
\<close>

theorem login_unknown_email_throws:
  "register demo_libs ''dev-secret'' 1000 7 demo_users (JStr ''Eve'') (JNum 123) (JStr ''pw'') =
     Inr (Response 201 (TokenUser (generateToken demo_libs ''dev-secret'' 1000 demo_eve) ''u_2''
            (JStr ''Eve'') (JNum 123)), demo_users @ [demo_eve]) \<and>
   login demo_libs ''dev-secret'' 2000 (demo_users @ [demo_eve]) (JStr ''nobody@bondfire.org'')
       (JStr ''password123'') JUndefined = Inl TypeError \<and>
   login demo_libs ''dev-secret'' 2000 (demo_users @ [demo_eve]) (JStr ''test@bondfire.org'')
       (JStr ''wrong'') JUndefined =
     Inr (Response 401 (Message ''Invalid email or password''), demo_users @ [demo_eve])"
proof -
  have unknown: "login demo_libs ''dev-secret'' 2000 (demo_users @ [demo_eve])
      (JStr ''nobody@bondfire.org'') (JStr ''password123'') JUndefined = Inl TypeError"
    by (simp add: login_def demo_users_def seed_users_def demo_eve_def new_user_def demo_libs_def
        email_is_def email_key_def js_or_def lower_char_def)
  have wrong: "login demo_libs ''dev-secret'' 2000 (demo_users @ [demo_eve])
      (JStr ''test@bondfire.org'') (JStr ''wrong'') JUndefined =
     Inr (Response 401 (Message ''Invalid email or password''), demo_users @ [demo_eve])"
    by (simp add: login_def demo_users_def seed_users_def demo_libs_def email_is_def email_key_def
        js_or_def lower_char_def demo_compareSync_def)
  from demo_register_eve unknown wrong show ?thesis by (intro conjI)
qed

theorem login_unknown_email_throws_witness:
  "truthy (JStr ''Eve'') \<and> truthy (JNum 123) \<and> truthy (JStr ''pw'') \<and>
   login demo_libs ''dev-secret'' 2000 (demo_users @ [demo_eve]) (JStr ''nobody@bondfire.org'')
       (JStr ''password123'') JUndefined = Inl TypeError"
proof -
  have passed: "truthy (JStr ''Eve'')" "truthy (JNum 123)" "truthy (JStr ''pw'')" by simp_all
  from login_unknown_email_throws
  have "login demo_libs ''dev-secret'' 2000 (demo_users @ [demo_eve]) (JStr ''nobody@bondfire.org'')
       (JStr ''password123'') JUndefined = Inl TypeError"
    by (rule conjunct2 [THEN conjunct1])
  with passed show ?thesis by (intro conjI)
qed

section \<open>Registering an email twice\<close>

text \<open>
  C4, as the handler has it. The first register call, whose email is a string, succeeds. A
  second call on the list it leaves, whose email has the same key
  \<^verbatim>\<open>String(email).toLowerCase()\<close> and whose name, email and password are all non-empty,
  answers 409 \<^verbatim>\<open>Email already registered\<close> and adds no user. (The check of the three fields
  comes first in the handler. A first call whose email is no string is left out here: see
  the section on register and login.)
\<close>

theorem register_duplicate_email:
  assumes first: "register L secret now sd users nm1 (JStr e1) pw1 = Inr (Response 201 b, users1)"
    and same: "email_key L em2 = email_key L (JStr e1)"
    and valid: "truthy nm2" "truthy em2" "truthy pw2"
  shows "register L secret now' sd' users1 nm2 em2 pw2 =
           Inr (Response 409 (Message ''Email already registered''), users1)"
proof -
  from first have e1: "e1 \<noteq> []"
    by (auto simp: register_def split: if_splits)
  from first have none: "js_some (email_is L (email_key L (JStr e1))) users = Inr False"
    by (auto simp: register_def Let_def split: if_splits sum.splits)
  from first obtain u where u: "users1 = users @ [u]" "email u = JStr e1"
    by (auto simp: register_def Let_def new_user_def split: if_splits sum.splits)
  have hit: "email_is L (email_key L (JStr e1)) u = Inr True"
    using e1 u(2) by (simp add: email_is_def email_key_JStr)
  have "js_find (email_is L (email_key L (JStr e1))) users1 = Inr (Some (length users, u))"
    using js_find_append_None [OF js_some_False_find [OF none], of u] hit u(1) by simp
  then have "js_some (email_is L (email_key L em2)) users1 = Inr True"
    by (simp add: js_some_find same)
  with valid show ?thesis
    by (simp add: register_def)
qed

theorem register_duplicate_email_witness:
  "register demo_libs ''dev-secret'' 2000 8 (demo_users @ [demo_ann]) (JStr ''Annie'')
       (JStr ''ANN@Bondfire.ORG'') (JStr ''secret'') =
     Inr (Response 409 (Message ''Email already registered''), demo_users @ [demo_ann])"
  by (rule register_duplicate_email [OF demo_register_ann demo_same_key]) simp_all

text \<open>
  Ann registers; a second request with her email in other letter case and an empty name is
  turned away by the field check, with 400 \<^verbatim>\<open>Missing fields\<close>, before the email is looked up.
\<close>

theorem register_duplicate_email_counterexample:
  "register demo_libs ''dev-secret'' 1000 7 demo_users (JStr ''Ann'') (JStr ''ann@bondfire.org'')
       (JStr ''hunter2'') =
     Inr (Response 201 (TokenUser (generateToken demo_libs ''dev-secret'' 1000 demo_ann) ''u_2''
            (JStr ''Ann'') (JStr ''ann@bondfire.org'')), demo_users @ [demo_ann]) \<and>
   email_key demo_libs (JStr ''ANN@Bondfire.ORG'') = email_key demo_libs (JStr ''ann@bondfire.org'') \<and>
   register demo_libs ''dev-secret'' 2000 8 (demo_users @ [demo_ann]) (JStr [])
       (JStr ''ANN@Bondfire.ORG'') (JStr ''secret'') =
     Inr (Response 400 (Message ''Missing fields''), demo_users @ [demo_ann])"
  using demo_register_ann demo_same_key by (simp add: register_def)

section \<open>Register, then login\<close>

text \<open>
  Name, email and password are non-empty (email and password strings), the scan of the
  list completes and finds no stored email with the same lower-cased key, and bcrypt accepts
  the password against the hash it has just produced. Then register answers 201 and appends
  the new user, and a login with the same email and password on the new list answers 200
  with a token for that user.
\<close>

lemma register_then_login:
  assumes nm: "truthy nm" and e: "e \<noteq> []" and p: "p \<noteq> []"
    and fresh: "js_some (email_is L (email_key L (JStr e))) users = Inr False"
    and hash: "hashSync L (JStr p) 10 sd = Inr h"
    and cmp: "compareSync L (JStr p) h = Inr True"
    and uid: "uid = ''u_'' @ show_nat (length users + 1)"
  shows "register L secret now sd users nm (JStr e) (JStr p) =
           Inr (Response 201 (TokenUser (generateToken L secret now (new_user uid nm (JStr e) h)) uid nm (JStr e)),
                users @ [new_user uid nm (JStr e) h]) \<and>
         login L secret now' (users @ [new_user uid nm (JStr e) h]) (JStr e) (JStr p) mfa =
           Inr (Response 200 (TokenUser (generateToken L secret now' (new_user uid nm (JStr e) h)) uid nm (JStr e)),
                users @ [new_user uid nm (JStr e) h])"
proof
  have "truthy (JStr e)" "truthy (JStr p)" using e p by simp_all
  with nm show "register L secret now sd users nm (JStr e) (JStr p) =
           Inr (Response 201 (TokenUser (generateToken L secret now (new_user uid nm (JStr e) h)) uid nm (JStr e)),
                users @ [new_user uid nm (JStr e) h])"
    using fresh hash uid by (intro register_new_user)
next
  show "login L secret now' (users @ [new_user uid nm (JStr e) h]) (JStr e) (JStr p) mfa =
           Inr (Response 200 (TokenUser (generateToken L secret now' (new_user uid nm (JStr e) h)) uid nm (JStr e)),
                users @ [new_user uid nm (JStr e) h])"
    by (rule login_new_user [OF js_some_False_find [OF fresh] e p cmp])
qed

lemma register_then_login_demo:
  "register demo_libs ''dev-secret'' 1000 7 demo_users (JStr ''Ann'') (JStr ''ann@bondfire.org'')
       (JStr ''hunter2'') =
     Inr (Response 201 (TokenUser (generateToken demo_libs ''dev-secret'' 1000 demo_ann) ''u_2''
            (JStr ''Ann'') (JStr ''ann@bondfire.org'')),
          demo_users @ [demo_ann]) \<and>
   login demo_libs ''dev-secret'' 2000 (demo_users @ [demo_ann]) (JStr ''ann@bondfire.org'')
       (JStr ''hunter2'') JUndefined =
     Inr (Response 200 (TokenUser (generateToken demo_libs ''dev-secret'' 2000 demo_ann) ''u_2''
            (JStr ''Ann'') (JStr ''ann@bondfire.org'')),
          demo_users @ [demo_ann])"
  unfolding demo_ann_def
  by (rule register_then_login [OF _ _ _ demo_fresh_ann demo_hash_ann demo_cmp_ann demo_uid_ann])
    simp_all

text \<open>
  C5 does not hold for every request the server accepts. Register with the non-empty email
  123 (a JSON number), which matches no stored email, is answered 201; the login that follows
  with the same email and password throws a TypeError at \<^verbatim>\<open>u.email.toLowerCase()\<close> when the
  scan reaches the new record. On the list that registration leaves, register with a
  non-empty name, the fresh string email \<^verbatim>\<open>ann@bondfire.org\<close> and a non-empty password throws
  the same TypeError instead of succeeding.
\<close>

theorem register_numeric_email_throws:
  "register demo_libs ''dev-secret'' 1000 7 demo_users (JStr ''Eve'') (JNum 123) (JStr ''pw'') =
     Inr (Response 201 (TokenUser (generateToken demo_libs ''dev-secret'' 1000 demo_eve) ''u_2''
            (JStr ''Eve'') (JNum 123)), demo_users @ [demo_eve]) \<and>
   login demo_libs ''dev-secret'' 2000 (demo_users @ [demo_eve]) (JNum 123) (JStr ''pw'') JUndefined =
     Inl TypeError \<and>
   register demo_libs ''dev-secret'' 3000 8 (demo_users @ [demo_eve]) (JStr ''Ann'')
       (JStr ''ann@bondfire.org'') (JStr ''hunter2'') = Inl TypeError"
proof -
  have again: "login demo_libs ''dev-secret'' 2000 (demo_users @ [demo_eve]) (JNum 123) (JStr ''pw'')
      JUndefined = Inl TypeError"
    by (simp add: login_def demo_users_def seed_users_def demo_eve_def new_user_def demo_libs_def
        email_is_def email_key_def js_or_def lower_char_def show_int_def show_nat.simps)
  have ann: "register demo_libs ''dev-secret'' 3000 8 (demo_users @ [demo_eve]) (JStr ''Ann'')
      (JStr ''ann@bondfire.org'') (JStr ''hunter2'') = Inl TypeError"
    by (simp add: register_def demo_users_def seed_users_def demo_eve_def new_user_def demo_libs_def
        email_is_def email_key_def js_or_def lower_char_def)
  from demo_register_eve again ann show ?thesis by (intro conjI)
qed

theorem register_numeric_email_throws_witness:
  "truthy (JStr ''Ann'') \<and> truthy (JStr ''ann@bondfire.org'') \<and> truthy (JStr ''hunter2'') \<and>
   register demo_libs ''dev-secret'' 3000 8 (demo_users @ [demo_eve]) (JStr ''Ann'')
       (JStr ''ann@bondfire.org'') (JStr ''hunter2'') = Inl TypeError"
proof -
  have passed: "truthy (JStr ''Ann'')" "truthy (JStr ''ann@bondfire.org'')" "truthy (JStr ''hunter2'')"
    by simp_all
  from register_numeric_email_throws
  have "register demo_libs ''dev-secret'' 3000 8 (demo_users @ [demo_eve]) (JStr ''Ann'')
       (JStr ''ann@bondfire.org'') (JStr ''hunter2'') = Inl TypeError"
    by (rule conjunct2 [THEN conjunct2])
  with passed show ?thesis by (intro conjI)
qed

section \<open>Login with MFA enabled\<close>

text \<open>
  C6. The user is found, the password check passes and \<open>mfaEnabled\<close> is set. Without a code
  (the field is missing or empty) login answers 401 \<^verbatim>\<open>MFA code required\<close>; with a code that
  the TOTP check against the active \<open>mfaSecret\<close>, window 1, turns down it answers 401
  \<^verbatim>\<open>Invalid MFA code\<close>; with a code that the check accepts it answers 200 with a token.
\<close>

theorem login_mfa_enabled:
  assumes found: "js_find (email_is L (email_key L em)) users = Inr (Some (i, u))"
    and pw: "compareSync L (js_or password (JStr [])) (passwordHash u) = Inr True"
    and enabled: "mfaEnabled u"
  shows "(\<not> truthy mfa \<longrightarrow>
            login L secret now users em password mfa =
              Inr (Response 401 (Message ''MFA code required''), users)) \<and>
         (truthy mfa \<and> totp_verify L (mfaSecret u) (to_String mfa) 1 now = Inr False \<longrightarrow>
            login L secret now users em password mfa =
              Inr (Response 401 (Message ''Invalid MFA code''), users)) \<and>
         (truthy mfa \<and> totp_verify L (mfaSecret u) (to_String mfa) 1 now = Inr True \<longrightarrow>
            login L secret now users em password mfa =
              Inr (Response 200 (TokenUser (generateToken L secret now u) (user_id u) (name u) (email u)),
                   users))"
  using found pw enabled by (simp add: login_def login_success_def)

lemma demo_mfa_state:
  "js_find (email_is demo_libs (email_key demo_libs (JStr ''test@bondfire.org''))) demo_enabled =
     Inr (Some (0, hd demo_enabled))"
  "compareSync demo_libs (js_or (JStr ''password123'') (JStr [])) (passwordHash (hd demo_enabled)) = Inr True"
  "mfaEnabled (hd demo_enabled)"
  by (simp_all add: demo_enabled_def demo_users_def seed_users_def demo_libs_def email_is_def
      email_key_def js_or_def lower_char_def demo_compareSync_def)

lemma demo_totp_bad:
  "totp_verify demo_libs (mfaSecret (hd demo_enabled)) (to_String (JStr ''999999'')) 1 1000 = Inr False"
  by (simp add: demo_libs_def demo_enabled_def demo_totp_verify_def demo_code_def show_nat.simps)

lemma demo_totp_good:
  "totp_verify demo_libs (mfaSecret (hd demo_enabled)) (to_String (JStr ''100038'')) 1 1000 = Inr True"
  by (simp add: demo_libs_def demo_enabled_def demo_totp_verify_def demo_code_def show_nat.simps)

lemma demo_enabled_fields:
  "user_id (hd demo_enabled) = ''u_1''" "name (hd demo_enabled) = JStr ''Test User''"
  "email (hd demo_enabled) = JStr ''test@bondfire.org''"
  by (simp_all add: demo_enabled_def demo_users_def seed_users_def)

theorem login_mfa_enabled_witness:
  "login demo_libs ''dev-secret'' 1000 demo_enabled (JStr ''test@bondfire.org'') (JStr ''password123'')
       JUndefined = Inr (Response 401 (Message ''MFA code required''), demo_enabled) \<and>
   login demo_libs ''dev-secret'' 1000 demo_enabled (JStr ''test@bondfire.org'') (JStr ''password123'')
       (JStr ''999999'') = Inr (Response 401 (Message ''Invalid MFA code''), demo_enabled) \<and>
   login demo_libs ''dev-secret'' 1000 demo_enabled (JStr ''test@bondfire.org'') (JStr ''password123'')
       (JStr ''100038'') =
     Inr (Response 200 (TokenUser (generateToken demo_libs ''dev-secret'' 1000 (hd demo_enabled)) ''u_1''
            (JStr ''Test User'') (JStr ''test@bondfire.org'')), demo_enabled)"
proof -
  note T = login_mfa_enabled [OF demo_mfa_state, where secret = "''dev-secret''" and now = 1000]
  have 1: "login demo_libs ''dev-secret'' 1000 demo_enabled (JStr ''test@bondfire.org'')
      (JStr ''password123'') JUndefined = Inr (Response 401 (Message ''MFA code required''), demo_enabled)"
    using T [where mfa = JUndefined] by simp
  have 2: "login demo_libs ''dev-secret'' 1000 demo_enabled (JStr ''test@bondfire.org'')
      (JStr ''password123'') (JStr ''999999'') = Inr (Response 401 (Message ''Invalid MFA code''), demo_enabled)"
    using T [where mfa = "JStr ''999999''"] demo_totp_bad by simp
  have 3: "login demo_libs ''dev-secret'' 1000 demo_enabled (JStr ''test@bondfire.org'')
      (JStr ''password123'') (JStr ''100038'') =
     Inr (Response 200 (TokenUser (generateToken demo_libs ''dev-secret'' 1000 (hd demo_enabled)) ''u_1''
            (JStr ''Test User'') (JStr ''test@bondfire.org'')), demo_enabled)"
    using T [where mfa = "JStr ''100038''"] demo_totp_good by (simp add: demo_enabled_fields)
  from 1 2 3 show ?thesis by simp
qed

section \<open>The MFA invariant\<close>

lemma truthy_present: "truthy v \<Longrightarrow> present v"
  by (cases v) (simp_all add: present_def)

lemma seed_users_consistent: "list_all mfa_consistent (seed_users h)"
  by (simp add: seed_users_def mfa_consistent_def present_def)

text \<open>
  C7. If every record of the list has \<open>mfaSecret\<close> present exactly when \<open>mfaEnabled\<close> is
  true, then so has every record of the list that any request to the auth and MFA routes
  leaves behind: login, me, register, forgot-password, reset-password, magic-link, and MFA
  setup, verify and disable.
\<close>

theorem handle_preserves_mfa_consistent:
  assumes inv: "list_all mfa_consistent users"
    and step: "handle L env w users req = Inr (r, users')"
  shows "list_all mfa_consistent users'"
proof (cases req)
  case (Login em password mfa)
  with step inv show ?thesis
    by (auto simp: login_def login_success_def split: sum.splits option.splits if_splits)
next
  case (Me s)
  with step inv show ?thesis
    by (auto simp: me_def split: sum.splits option.splits)
next
  case (Register nm em password)
  with step inv show ?thesis
    by (auto simp: register_def Let_def new_user_def mfa_consistent_def present_def
        split: sum.splits if_splits)
next
  case (ForgotPassword em)
  with step obtain i u where
    "users' = users \<or> (js_find (email_is L (email_key L em)) users = Inr (Some (i, u)) \<and>
       users' = users[i := u\<lparr>resetToken := JStr (drop 2 (random1 w) @ drop 2 (random2 w))\<rparr>])"
    by (auto simp: forgot_password_def split: sum.splits option.splits)
  then show ?thesis
  proof
    assume "users' = users" with inv show ?thesis by simp
  next
    assume a: "js_find (email_is L (email_key L em)) users = Inr (Some (i, u)) \<and>
       users' = users[i := u\<lparr>resetToken := JStr (drop 2 (random1 w) @ drop 2 (random2 w))\<rparr>]"
    then have "i < length users" "users ! i = u" using js_find_SomeD by fastforce+
    with inv have "mfa_consistent u" using list_all_nth by blast
    then have "mfa_consistent (u\<lparr>resetToken := JStr (drop 2 (random1 w) @ drop 2 (random2 w))\<rparr>)"
      by (simp add: mfa_consistent_def)
    with inv a show ?thesis by (simp add: list_all_update)
  qed
next
  case (ResetPassword token newPassword)
  show ?thesis
  proof (cases "js_find (resetToken_is token) users")
    case (Inl e)
    with step ResetPassword show ?thesis by (simp add: reset_password_def)
  next
    case (Inr found)
    show ?thesis
    proof (cases found)
      case None
      with step ResetPassword Inr inv show ?thesis by (simp add: reset_password_def)
    next
      case (Some iu)
      obtain i u where iu: "iu = (i, u)" by (cases iu)
      with Some Inr have "i < length users" "users ! i = u" using js_find_SomeD by fastforce+
      with inv have "mfa_consistent u" using list_all_nth by blast
      then have "\<And>h. mfa_consistent (u\<lparr>passwordHash := h, resetToken := JNull\<rparr>)"
        by (simp add: mfa_consistent_def)
      with step ResetPassword Inr Some iu inv show ?thesis
        by (auto simp: reset_password_def list_all_update split: sum.splits)
    qed
  qed
next
  case (MagicLink em)
  with step inv show ?thesis by (simp add: magic_link_def)
next
  case (MfaSetup s)
  show ?thesis
  proof (cases "js_find (id_is s) users")
    case (Inl e)
    with step MfaSetup show ?thesis by (simp add: mfa_setup_def)
  next
    case (Inr found)
    show ?thesis
    proof (cases found)
      case None
      with step MfaSetup Inr inv show ?thesis by (simp add: mfa_setup_def)
    next
      case (Some iu)
      obtain i u where iu: "iu = (i, u)" by (cases iu)
      with Some Inr have "i < length users" "users ! i = u" using js_find_SomeD by fastforce+
      with inv have "mfa_consistent u" using list_all_nth by blast
      then have "\<And>b. mfa_consistent (u\<lparr>mfaTempSecret := b\<rparr>)"
        by (simp add: mfa_consistent_def)
      with step MfaSetup Inr Some iu inv show ?thesis
        by (auto simp: mfa_setup_def list_all_update split: prod.splits)
    qed
  qed
next
  case (MfaVerify s token secret')
  show ?thesis
  proof (cases "js_find (id_is s) users")
    case (Inl e)
    with step MfaVerify show ?thesis by (simp add: mfa_verify_def)
  next
    case (Inr found)
    show ?thesis
    proof (cases found)
      case None
      with step MfaVerify Inr inv show ?thesis by (simp add: mfa_verify_def)
    next
      case (Some iu)
      obtain i u where iu: "iu = (i, u)" by (cases iu)
      have "\<And>b. truthy b \<Longrightarrow>
          mfa_consistent (u\<lparr>mfaEnabled := True, mfaSecret := b, mfaTempSecret := JNull\<rparr>)"
        by (simp add: mfa_consistent_def truthy_present)
      with step MfaVerify Inr Some iu inv show ?thesis
        by (auto simp: mfa_verify_def Let_def list_all_update split: sum.splits if_splits)
    qed
  qed
next
  case (MfaDisable s)
  have "\<And>u. mfa_consistent (u\<lparr>mfaEnabled := False, mfaSecret := JNull, mfaTempSecret := JNull\<rparr>)"
    by (simp add: mfa_consistent_def present_def)
  with step MfaDisable inv show ?thesis
    by (auto simp: mfa_disable_def list_all_update split: sum.splits option.splits)
qed

theorem handle_preserves_mfa_consistent_witness:
  "list_all mfa_consistent demo_pending \<and>
   handle demo_libs None \<lparr>clock = 1000, seed = 0, random1 = [], random2 = []\<rparr> demo_pending
       (MfaVerify (JStr ''u_1'') (JStr ''100037'') (JStr ''EVIL'')) =
     Inr (Response 200 OkTrue,
          [(hd demo_users)\<lparr>mfaEnabled := True, mfaSecret := JStr ''EVIL'', mfaTempSecret := JNull\<rparr>]) \<and>
   list_all mfa_consistent
     [(hd demo_users)\<lparr>mfaEnabled := True, mfaSecret := JStr ''EVIL'', mfaTempSecret := JNull\<rparr>]"
proof -
  have inv: "list_all mfa_consistent demo_pending"
    by (simp add: demo_pending_def demo_users_def seed_users_def mfa_consistent_def present_def)
  have step: "handle demo_libs None \<lparr>clock = 1000, seed = 0, random1 = [], random2 = []\<rparr>
       demo_pending (MfaVerify (JStr ''u_1'') (JStr ''100037'') (JStr ''EVIL'')) =
     Inr (Response 200 OkTrue,
          [(hd demo_users)\<lparr>mfaEnabled := True, mfaSecret := JStr ''EVIL'', mfaTempSecret := JNull\<rparr>])"
    using demo_verify_evil by simp
  from inv step handle_preserves_mfa_consistent [OF inv step] show ?thesis by (intro conjI)
qed

section \<open>Tokens\<close>

text \<open>
  C8. jsonwebtoken returns, for the token it has just signed with the server's secret, the
  payload it was given (with issue and expiry times). Then \<open>authMiddleware\<close>, given the
  header \<^verbatim>\<open>Bearer\<close> plus the token that \<open>generateToken\<close> made for a user, passes the request on
  with claims whose \<open>sub\<close>, email and name are that user's id, email and name.
\<close>

theorem issue_then_verify:
  assumes nonempty: "jwt_sign L \<lparr>sub = JStr (user_id u), p_email = email u, p_name = name u\<rparr> secret ''1h'' now \<noteq> []"
    and library: "jwt_verify L (jwt_sign L \<lparr>sub = JStr (user_id u), p_email = email u, p_name = name u\<rparr> secret ''1h'' now)
                    secret now =
                  Inr \<lparr>sub = JStr (user_id u), p_email = email u, p_name = name u, iat = i, exp = x\<rparr>"
  shows "authMiddleware L secret now (Some (''Bearer '' @ generateToken L secret now u)) =
           Next \<lparr>sub = JStr (user_id u), p_email = email u, p_name = name u, iat = i, exp = x\<rparr>"
  using nonempty library by (simp add: authMiddleware_def generateToken_def)

theorem issue_then_verify_witness:
  "authMiddleware demo_libs ''dev-secret'' 1000
       (Some (''Bearer '' @ generateToken demo_libs ''dev-secret'' 1000 demo_ann)) =
     Next \<lparr>sub = JStr ''u_2'', p_email = JStr ''ann@bondfire.org'', p_name = JStr ''Ann'',
           iat = 1000, exp = 4600\<rparr>"
proof -
  have tok: "jwt_sign demo_libs \<lparr>sub = JStr (user_id demo_ann), p_email = email demo_ann, p_name = name demo_ann\<rparr>
      ''dev-secret'' ''1h'' 1000 = ''u_2|ann@bondfire.org|Ann|1000|4600|dev-secret''"
    using demo_token_ann by (simp add: generateToken_def)
  have nonempty: "jwt_sign demo_libs \<lparr>sub = JStr (user_id demo_ann), p_email = email demo_ann, p_name = name demo_ann\<rparr>
      ''dev-secret'' ''1h'' 1000 \<noteq> []"
    unfolding tok by simp
  have library: "jwt_verify demo_libs
       (jwt_sign demo_libs \<lparr>sub = JStr (user_id demo_ann), p_email = email demo_ann, p_name = name demo_ann\<rparr>
          ''dev-secret'' ''1h'' 1000) ''dev-secret'' 1000 =
     Inr \<lparr>sub = JStr (user_id demo_ann), p_email = email demo_ann, p_name = name demo_ann, iat = 1000, exp = 4600\<rparr>"
    unfolding tok demo_verify_ann by (simp add: demo_ann_fields)
  from issue_then_verify [OF nonempty library] show ?thesis
    by (simp add: demo_ann_fields)
qed

text \<open>
  C9, as the middleware has it. Whatever the reason jsonwebtoken gives for turning a
  non-empty token down, an expiry in the past or a signature made with another secret,
  \<open>authMiddleware\<close> answers the same: 401 with the message \<^verbatim>\<open>Invalid token\<close>.
\<close>

theorem authMiddleware_rejects_alike:
  assumes "token \<noteq> []" and "jwt_verify L token secret now = Inl e"
  shows "authMiddleware L secret now (Some (''Bearer '' @ token)) =
           Reject (Response 401 (Message ''Invalid token''))"
  using assms by (simp add: authMiddleware_def)

theorem authMiddleware_rejects_alike_witness:
  "authMiddleware demo_libs ''dev-secret'' 5000
       (Some (''Bearer '' @ ''u_2|ann@bondfire.org|Ann|1000|4600|dev-secret'')) =
     Reject (Response 401 (Message ''Invalid token''))"
proof -
  have ne: "''u_2|ann@bondfire.org|Ann|1000|4600|dev-secret'' \<noteq> []" by simp
  show ?thesis by (rule authMiddleware_rejects_alike [OF ne demo_expired])
qed

text \<open>
  Ann's token, minted at time 1000 and read at time 5000, is expired; the same claims signed
  with another secret do not verify. The library tells the two apart, the middleware does
  not: both requests get the one 401 \<^verbatim>\<open>Invalid token\<close> response.
\<close>

theorem verify_failures_counterexample:
  "generateToken demo_libs ''dev-secret'' 1000 demo_ann = ''u_2|ann@bondfire.org|Ann|1000|4600|dev-secret'' \<and>
   generateToken demo_libs ''other-secret'' 1000 demo_ann = ''u_2|ann@bondfire.org|Ann|1000|4600|other-secret'' \<and>
   jwt_verify demo_libs ''u_2|ann@bondfire.org|Ann|1000|4600|dev-secret'' ''dev-secret'' 5000 =
     Inl TokenExpiredError \<and>
   jwt_verify demo_libs ''u_2|ann@bondfire.org|Ann|1000|4600|other-secret'' ''dev-secret'' 1000 =
     Inl JsonWebTokenError \<and>
   authMiddleware demo_libs ''dev-secret'' 5000
       (Some (''Bearer '' @ ''u_2|ann@bondfire.org|Ann|1000|4600|dev-secret'')) =
     Reject (Response 401 (Message ''Invalid token'')) \<and>
   authMiddleware demo_libs ''dev-secret'' 1000
       (Some (''Bearer '' @ ''u_2|ann@bondfire.org|Ann|1000|4600|other-secret'')) =
     Reject (Response 401 (Message ''Invalid token''))"
proof -
  have 5: "authMiddleware demo_libs ''dev-secret'' 5000
       (Some (''Bearer '' @ ''u_2|ann@bondfire.org|Ann|1000|4600|dev-secret'')) =
     Reject (Response 401 (Message ''Invalid token''))"
    using demo_expired by (simp add: authMiddleware_def)
  have 6: "authMiddleware demo_libs ''dev-secret'' 1000
       (Some (''Bearer '' @ ''u_2|ann@bondfire.org|Ann|1000|4600|other-secret'')) =
     Reject (Response 401 (Message ''Invalid token''))"
    using demo_foreign by (simp add: authMiddleware_def)
  from demo_token_ann demo_token_foreign demo_expired demo_foreign 5 6 show ?thesis by simp
qed

section \<open>Resetting to an empty password\<close>

text \<open>
  C10. For a user holding the reset token, a reset request whose new password is missing or
  empty succeeds: the stored hash becomes the hash of the empty string and the token is
  cleared. Register turns the same password down with 400 \<^verbatim>\<open>Missing fields\<close>.
\<close>

theorem reset_password_empty:
  assumes held: "holds_token users i t"
    and empty: "\<not> truthy newPassword"
    and hash: "hashSync L (JStr []) 10 sd = Inr h"
  shows "reset_password L sd users (JStr t) newPassword =
           Inr (Response 200 OkTrue, users[i := (users ! i)\<lparr>passwordHash := h, resetToken := JNull\<rparr>]) \<and>
         register L secret now sd' users' nm em newPassword =
           Inr (Response 400 (Message ''Missing fields''), users')"
proof
  from empty have "js_or newPassword (JStr []) = JStr []" by (simp add: js_or_def)
  with hash have "hashSync L (js_or newPassword (JStr [])) 10 sd = Inr h" by simp
  with held show "reset_password L sd users (JStr t) newPassword =
      Inr (Response 200 OkTrue, users[i := (users ! i)\<lparr>passwordHash := h, resetToken := JNull\<rparr>])"
    by (rule reset_password_holder)
next
  from empty show "register L secret now sd' users' nm em newPassword =
      Inr (Response 400 (Message ''Missing fields''), users')"
    by (simp add: register_def)
qed

theorem reset_password_empty_witness:
  "reset_password demo_libs 5 demo_reset (JStr ''k3j2h1x9y8z7'') JUndefined =
     Inr (Response 200 OkTrue,
          demo_reset[0 := (demo_reset ! 0)\<lparr>passwordHash := ''$2a$10$'', resetToken := JNull\<rparr>]) \<and>
   register demo_libs ''dev-secret'' 1000 6 demo_reset (JStr ''Bob'') (JStr ''bob@bondfire.org'') JUndefined =
     Inr (Response 400 (Message ''Missing fields''), demo_reset)"
proof -
  have empty: "\<not> truthy JUndefined" by simp
  show ?thesis
    by (rule reset_password_empty [OF demo_reset_held empty demo_hash_empty])
qed

end
